theory Spec2Isabelle
  imports Complex_Main
begin

section \<open>Numbers, matrices and vectors\<close>

text \<open>
  The class \<^verbatim>\<open>we.math.TransformationMatrix\<close> of
  \<^verbatim>\<open>src/we/math/transformationmatrix.js\<close> is embedded here. A JavaScript number is
  read as a real number: \<^verbatim>\<open>Math.cos\<close>, \<^verbatim>\<open>Math.sin\<close> and
  \<^verbatim>\<open>Math.sqrt\<close> are \<open>cos\<close>, \<open>sin\<close> and \<open>sqrt\<close>. Rounding, NaN and the
  infinities are outside this model. The theorems below therefore say only what does not
  depend on how a double rounds: which operation matrix a method builds, on which side it
  multiplies, and into which field the product goes. What holds of the doubles only up to
  rounding (that \<open>(1 - c) + c\<close> is 1, that \<open>cos\<^sup>2 + sin\<^sup>2\<close> is 1, that a computed inverse
  times its matrix is the identity) is not stated here.

  A \<^verbatim>\<open>goog.math.Matrix\<close> is the array of its rows. The library's constructor accepts
  only rectangular arrays, so the rows of a matrix all have the same length.
\<close>

type_synonym Matrix = "real list list"

record Vec3 =
  vx :: real
  vy :: real
  vz :: real

definition height :: "Matrix \<Rightarrow> nat" where
  "height m = length m"

definition width :: "Matrix \<Rightarrow> nat" where
  "width m = (case m of [] \<Rightarrow> 0 | r # _ \<Rightarrow> length r)"

text \<open>
  Modelled from the spec: \<^verbatim>\<open>goog.math.Matrix.createIdentityMatrix\<close>, of the numeric
  library the class depends on (section 6: a matrix type constructible as an N by N identity
  matrix).
\<close>

definition createIdentityMatrix :: "nat \<Rightarrow> Matrix" where
  "createIdentityMatrix n =
     map (\<lambda>i. map (\<lambda>j. if i = j then 1 else 0) [0..<n]) [0..<n]"

text \<open>
  Modelled from the spec: \<^verbatim>\<open>goog.math.Matrix.prototype.multiply\<close> (section 6: matrix
  multiplication, returning a new matrix). Cell \<open>(i, j)\<close> of the product accumulates, from 0,
  the products of row \<open>i\<close> of the receiver with column \<open>j\<close> of the argument. The product is
  defined only when the receiver's width is the argument's height; \<open>None\<close> is the library's
  refusal of any other pair.
\<close>

definition matrixMultiply :: "Matrix \<Rightarrow> Matrix \<Rightarrow> Matrix" where
  "matrixMultiply a b =
     map (\<lambda>i. map (\<lambda>j. foldl (\<lambda>newVal k. newVal + (a ! i ! k) * (b ! k ! j)) 0 [0..<width a])
                 [0..<width b])
         [0..<height a]"

definition multiply :: "Matrix \<Rightarrow> Matrix \<Rightarrow> Matrix option" where
  "multiply a b = (if width a \<noteq> height b then None else Some (matrixMultiply a b))"

section \<open>The transformation matrix\<close>

text \<open>
  The object has the private field \<^verbatim>\<open>matrix_\<close>, set by the constructor; it is
  \<open>matrix_private\<close> here, a name ending in an underscore being reserved. The method
  \<^verbatim>\<open>lookAt\<close> assigns to \<^verbatim>\<open>this.matrix\<close>, a property that no other line of the
  file mentions: it does not exist (\<open>None\<close>) until \<^verbatim>\<open>lookAt\<close> creates it.
\<close>

record TransformationMatrix =
  matrix_private :: Matrix
  matrix :: "Matrix option"

definition new_TransformationMatrix :: TransformationMatrix where
  "new_TransformationMatrix = \<lparr> matrix_private = createIdentityMatrix 4, matrix = None \<rparr>"

definition getStandardMatrix :: "TransformationMatrix \<Rightarrow> Matrix" where
  "getStandardMatrix tm = matrix_private tm"

definition loadIdentity :: "TransformationMatrix \<Rightarrow> TransformationMatrix" where
  "loadIdentity tm = tm\<lparr> matrix_private := createIdentityMatrix 4 \<rparr>"

text \<open>
  Every composing method assigns the product to \<^verbatim>\<open>this.matrix_\<close>; where the library
  refuses the product, nothing is assigned and the call does not return (\<open>None\<close>).
\<close>

definition translate :: "real \<Rightarrow> real \<Rightarrow> real \<Rightarrow> TransformationMatrix \<Rightarrow> TransformationMatrix option" where
  "translate x y z tm =
     map_option (\<lambda>m. tm\<lparr> matrix_private := m \<rparr>)
       (multiply (matrix_private tm)
          [[1, 0, 0, x],
           [0, 1, 0, y],
           [0, 0, 1, z],
           [0, 0, 0, 1]])"

definition scale :: "real \<Rightarrow> real \<Rightarrow> real \<Rightarrow> TransformationMatrix \<Rightarrow> TransformationMatrix option" where
  "scale x y z tm =
     map_option (\<lambda>m. tm\<lparr> matrix_private := m \<rparr>)
       (multiply (matrix_private tm)
          [[x, 0, 0, 0],
           [0, y, 0, 0],
           [0, 0, z, 0],
           [0, 0, 0, 1]])"

text \<open>The operation matrix that \<^verbatim>\<open>rotate\<close> builds, from \<open>c\<close> and \<open>s\<close>.\<close>

definition rotate_matrix :: "real \<Rightarrow> real \<Rightarrow> real \<Rightarrow> real \<Rightarrow> Matrix" where
  "rotate_matrix angle x y z =
     (let c = cos angle; s = sin angle in
      [[x * x * (1 - c) + c, x * y * (1 - c) - z * s, x * z * (1 - c) + y * s, 0],
       [y * x * (1 - c) + z * s, y * y * (1 - c) + c, y * z * (1 - c) - x * s, 0],
       [z * x * (1 - c) - y * s, z * y * (1 - c) + x * s, z * z * (1 - c) + c, 0],
       [0, 0, 0, 1]])"

definition rotate :: "real \<Rightarrow> real \<Rightarrow> real \<Rightarrow> real \<Rightarrow> TransformationMatrix \<Rightarrow> TransformationMatrix option" where
  "rotate angle x y z tm =
     map_option (\<lambda>m. tm\<lparr> matrix_private := m \<rparr>)
       (multiply (matrix_private tm) (rotate_matrix angle x y z))"

definition rotate010 :: "real \<Rightarrow> TransformationMatrix \<Rightarrow> TransformationMatrix option" where
  "rotate010 angle tm =
     (let c = cos angle; s = sin angle in
      map_option (\<lambda>m. tm\<lparr> matrix_private := m \<rparr>)
        (multiply (matrix_private tm)
           [[c, 0, s, 0],
            [0, 1, 0, 0],
            [- s, 0, c, 0],
            [0, 0, 0, 1]]))"

definition rotate100 :: "real \<Rightarrow> TransformationMatrix \<Rightarrow> TransformationMatrix option" where
  "rotate100 angle tm =
     (let c = cos angle; s = sin angle in
      map_option (\<lambda>m. tm\<lparr> matrix_private := m \<rparr>)
        (multiply (matrix_private tm)
           [[1, 0, 0, 0],
            [0, c, - s, 0],
            [0, s, c, 0],
            [0, 0, 0, 1]]))"

definition rotate001 :: "real \<Rightarrow> TransformationMatrix \<Rightarrow> TransformationMatrix option" where
  "rotate001 angle tm =
     (let c = cos angle; s = sin angle in
      map_option (\<lambda>m. tm\<lparr> matrix_private := m \<rparr>)
        (multiply (matrix_private tm)
           [[c, - s, 0, 0],
            [s, c, 0, 0],
            [0, 0, 1, 0],
            [0, 0, 0, 1]]))"

text \<open>
  Modelled from the spec: the three-component vector type \<^verbatim>\<open>goog.math.Vec3\<close> of the
  numeric library (section 6: component-wise subtraction, Euclidean normalization as division
  by the magnitude, the 3D cross product, and access to the components). A vector is the value
  of its three components; the three arguments of \<^verbatim>\<open>lookAt\<close> are taken to be three
  separate objects.
\<close>

definition Vec3_subtract :: "Vec3 \<Rightarrow> Vec3 \<Rightarrow> Vec3" where
  "Vec3_subtract a b = \<lparr> vx = vx a - vx b, vy = vy a - vy b, vz = vz a - vz b \<rparr>"

definition Vec3_magnitude :: "Vec3 \<Rightarrow> real" where
  "Vec3_magnitude a = sqrt (vx a * vx a + vy a * vy a + vz a * vz a)"

definition Vec3_normalize :: "Vec3 \<Rightarrow> Vec3" where
  "Vec3_normalize a =
     \<lparr> vx = vx a / Vec3_magnitude a, vy = vy a / Vec3_magnitude a, vz = vz a / Vec3_magnitude a \<rparr>"

definition Vec3_cross :: "Vec3 \<Rightarrow> Vec3 \<Rightarrow> Vec3" where
  "Vec3_cross a b =
     \<lparr> vx = vy a * vz b - vz a * vy b,
       vy = vz a * vx b - vx a * vz b,
       vz = vx a * vy b - vy a * vx b \<rparr>"

text \<open>The orientation matrix that \<^verbatim>\<open>lookAt\<close> builds from its three vectors.\<close>

definition lookAt_matrix :: "Vec3 \<Rightarrow> Vec3 \<Rightarrow> Vec3 \<Rightarrow> Matrix" where
  "lookAt_matrix eye center up =
     (let fw = Vec3_normalize (Vec3_subtract center eye);
          side = Vec3_normalize (Vec3_cross fw up);
          up = Vec3_cross side fw in
      [[vx side, vy side, vz side, 0],
       [vx up, vy up, vz up, 0],
       [- vx fw, - vy fw, - vz fw, 0],
       [0, 0, 0, 1]])"

text \<open>
  \<^verbatim>\<open>lookAt\<close> assigns the product with the orientation matrix to \<^verbatim>\<open>this.matrix\<close>
  (line 195) and then calls \<^verbatim>\<open>this.translate\<close>, which reads and assigns
  \<^verbatim>\<open>this.matrix_\<close>.
\<close>

definition lookAt :: "Vec3 \<Rightarrow> Vec3 \<Rightarrow> Vec3 \<Rightarrow> TransformationMatrix \<Rightarrow> TransformationMatrix option" where
  "lookAt eye center up tm =
     (case multiply (matrix_private tm) (lookAt_matrix eye center up) of
        None \<Rightarrow> None
      | Some m \<Rightarrow> translate (- vx eye) (- vy eye) (- vz eye) (tm\<lparr> matrix := Some m \<rparr>))"

text \<open>
  Modelled from the spec: per-cell get and set by (row, column) of the library's matrix
  (section 6). A cell outside the matrix holds no number: reading it gives \<open>None\<close>, and
  writing it is refused.
\<close>

definition getValueAt :: "Matrix \<Rightarrow> nat \<Rightarrow> nat \<Rightarrow> real option" where
  "getValueAt m i j = (if i < height m \<and> j < width m then Some (m ! i ! j) else None)"

definition setValueAt :: "nat \<Rightarrow> nat \<Rightarrow> real \<Rightarrow> Matrix \<Rightarrow> Matrix option" where
  "setValueAt i j v m =
     (if i < height m \<and> j < width m then Some (m[i := (m ! i)[j := v]]) else None)"

text \<open>
  Modelled from the spec: the library's matrix inverse (sections 6 and 9: the matrix computes
  its own inverse, e.g. via cofactor expansion, for the small fixed size 3 by 3 used here).
  Only the 3 by 3 case is modelled, by cofactors over the determinant. The spec leaves the
  result for a singular matrix to the library; here it is \<open>None\<close>, no matrix being returned.
  The library computes in doubles and returns an approximation of this matrix; no theorem
  below depends on the entries of the result.
\<close>

definition getInverse :: "Matrix \<Rightarrow> Matrix option" where
  "getInverse m =
     (if \<not> (length m = 3 \<and> list_all (\<lambda>r. length r = 3) m) then None
      else
        let a = m ! 0 ! 0; b = m ! 0 ! 1; c = m ! 0 ! 2;
            d = m ! 1 ! 0; e = m ! 1 ! 1; f = m ! 1 ! 2;
            g = m ! 2 ! 0; h = m ! 2 ! 1; i = m ! 2 ! 2;
            det = a * (e * i - f * h) - b * (d * i - f * g) + c * (d * h - e * g)
        in if det = 0 then None
           else Some [[(e * i - f * h) / det, (c * h - b * i) / det, (b * f - c * e) / det],
                      [(f * g - d * i) / det, (a * i - c * g) / det, (c * d - a * f) / det],
                      [(d * h - e * g) / det, (b * g - a * h) / det, (a * e - b * d) / det]])"

text \<open>
  The two nested loops of \<^verbatim>\<open>getInverseMat3\<close> visit the cells \<open>(i, j)\<close> row by row and
  copy each from \<^verbatim>\<open>this.matrix_\<close> into \<open>m\<close>. The source casts every cell read to a
  number; where the cell is outside \<^verbatim>\<open>this.matrix_\<close> there is no number and the model
  stops with \<open>None\<close>.
\<close>

fun copy_cells :: "Matrix \<Rightarrow> (nat \<times> nat) list \<Rightarrow> Matrix \<Rightarrow> Matrix option" where
  "copy_cells src [] m = Some m"
| "copy_cells src ((i, j) # cells) m =
     (case getValueAt src i j of
        None \<Rightarrow> None
      | Some v \<Rightarrow>
          (case setValueAt i j v m of
             None \<Rightarrow> None
           | Some m' \<Rightarrow> copy_cells src cells m'))"

definition getInverseMat3 :: "TransformationMatrix \<Rightarrow> Matrix option" where
  "getInverseMat3 tm =
     (case copy_cells (matrix_private tm)
             (concat (map (\<lambda>i. map (\<lambda>j. (i, j)) [0..<3]) [0..<3]))
             (replicate 3 (replicate 3 0)) of
        None \<Rightarrow> None
      | Some m \<Rightarrow> getInverse m)"

section \<open>Sequences of calls\<close>

text \<open>
  A caller composes a transform by calling the mutating methods one after another on the same
  object; a call that does not return ends the sequence.
\<close>

datatype operation =
    LoadIdentity
  | Translate real real real
  | Scale real real real
  | Rotate real real real real
  | Rotate010 real
  | Rotate100 real
  | Rotate001 real
  | LookAt Vec3 Vec3 Vec3

fun call :: "operation \<Rightarrow> TransformationMatrix \<Rightarrow> TransformationMatrix option" where
  "call LoadIdentity tm = Some (loadIdentity tm)"
| "call (Translate x y z) tm = translate x y z tm"
| "call (Scale x y z) tm = scale x y z tm"
| "call (Rotate angle x y z) tm = rotate angle x y z tm"
| "call (Rotate010 angle) tm = rotate010 angle tm"
| "call (Rotate100 angle) tm = rotate100 angle tm"
| "call (Rotate001 angle) tm = rotate001 angle tm"
| "call (LookAt eye center up) tm = lookAt eye center up tm"

fun calls :: "operation list \<Rightarrow> TransformationMatrix \<Rightarrow> TransformationMatrix option" where
  "calls [] tm = Some tm"
| "calls (op # ops) tm = (case call op tm of None \<Rightarrow> None | Some tm' \<Rightarrow> calls ops tm')"

section \<open>The mathematical reading of the operations\<close>

text \<open>
  The specification speaks of 4 by 4 matrices, of their product, and of the operation matrices
  \<open>T\<close>, \<open>S\<close>, \<open>R\<close> and \<open>O\<close>. These definitions follow its words, for comparison with
  the code above.
\<close>

definition is4x4 :: "Matrix \<Rightarrow> bool" where
  "is4x4 m = (length m = 4 \<and> list_all (\<lambda>r. length r = 4) m)"

definition entry :: "Matrix \<Rightarrow> nat \<Rightarrow> nat \<Rightarrow> real" where
  "entry m i j = m ! i ! j"

definition times4 :: "Matrix \<Rightarrow> Matrix \<Rightarrow> Matrix" where
  "times4 a b =
     map (\<lambda>i. map (\<lambda>j. entry a i 0 * entry b 0 j + entry a i 1 * entry b 1 j
                      + entry a i 2 * entry b 2 j + entry a i 3 * entry b 3 j) [0..<4])
         [0..<4]"

definition identity4 :: Matrix where
  "identity4 = [[1, 0, 0, 0], [0, 1, 0, 0], [0, 0, 1, 0], [0, 0, 0, 1]]"

definition identity3 :: Matrix where
  "identity3 = [[1, 0, 0], [0, 1, 0], [0, 0, 1]]"

definition set_entry :: "nat \<Rightarrow> nat \<Rightarrow> real \<Rightarrow> Matrix \<Rightarrow> Matrix" where
  "set_entry i j v m = m[i := (m ! i)[j := v]]"

text \<open>\<open>T(x,y,z)\<close>: the identity with the top three entries of its last column set to x, y, z.\<close>

definition T_spec :: "real \<Rightarrow> real \<Rightarrow> real \<Rightarrow> Matrix" where
  "T_spec x y z = set_entry 2 3 z (set_entry 1 3 y (set_entry 0 3 x identity4))"

text \<open>\<open>S(x,y,z)\<close>: the diagonal matrix \<open>diag(x, y, z, 1)\<close>.\<close>

definition diag4 :: "real \<Rightarrow> real \<Rightarrow> real \<Rightarrow> real \<Rightarrow> Matrix" where
  "diag4 p q r t =
     map (\<lambda>i. map (\<lambda>j. if i = j then [p, q, r, t] ! i else 0) [0..<4]) [0..<4]"

definition S_spec :: "real \<Rightarrow> real \<Rightarrow> real \<Rightarrow> Matrix" where
  "S_spec x y z = diag4 x y z 1"

text \<open>\<open>R\<close>: the rows of Rodrigues' formula as the specification prints them.\<close>

definition R_spec :: "real \<Rightarrow> real \<Rightarrow> real \<Rightarrow> real \<Rightarrow> Matrix" where
  "R_spec \<theta> x y z =
     [[x\<^sup>2 * (1 - cos \<theta>) + cos \<theta>, x * y * (1 - cos \<theta>) - z * sin \<theta>, x * z * (1 - cos \<theta>) + y * sin \<theta>, 0],
      [y * x * (1 - cos \<theta>) + z * sin \<theta>, y\<^sup>2 * (1 - cos \<theta>) + cos \<theta>, y * z * (1 - cos \<theta>) - x * sin \<theta>, 0],
      [z * x * (1 - cos \<theta>) - y * sin \<theta>, z * y * (1 - cos \<theta>) + x * sin \<theta>, z\<^sup>2 * (1 - cos \<theta>) + cos \<theta>, 0],
      [0, 0, 0, 1]]"

text \<open>
  \<open>O\<close>: the orientation matrix with rows side, up', minus forward and \<open>(0,0,0,1)\<close>, of steps
  1 to 4 of the lookAt algorithm.
\<close>

definition O_spec :: "Vec3 \<Rightarrow> Vec3 \<Rightarrow> Vec3 \<Rightarrow> Matrix" where
  "O_spec eye center up =
     (let forward = Vec3_normalize (Vec3_subtract center eye);
          side = Vec3_normalize (Vec3_cross forward up);
          up' = Vec3_cross side forward in
      [[vx side, vy side, vz side, 0],
       [vx up', vy up', vz up', 0],
       [- vx forward, - vy forward, - vz forward, 0],
       [0, 0, 0, 1]])"

text \<open>The upper-left 3 by 3 submatrix.\<close>

definition upper3 :: "Matrix \<Rightarrow> Matrix" where
  "upper3 m = map (\<lambda>i. map (\<lambda>j. entry m i j) [0..<3]) [0..<3]"

text \<open>Three vectors for a concrete call of \<^verbatim>\<open>lookAt\<close>: the eye at (0,0,5) looks along the x axis.\<close>

definition eye0 :: Vec3 where
  "eye0 = \<lparr> vx = 0, vy = 0, vz = 5 \<rparr>"

definition center0 :: Vec3 where
  "center0 = \<lparr> vx = 1, vy = 0, vz = 5 \<rparr>"

definition up0 :: Vec3 where
  "up0 = \<lparr> vx = 0, vy = 1, vz = 0 \<rparr>"

section \<open>Basic facts\<close>

lemma upt_4: "[0..<4] = [0, 1, 2, 3]"
  by (simp add: upt_rec)

lemma upt_3: "[0..<3] = [0, 1, 2]"
  by (simp add: upt_rec)

lemma is4x4_rows:
  assumes "is4x4 m"
  obtains a0 a1 a2 a3 b0 b1 b2 b3 c0 c1 c2 c3 d0 d1 d2 d3 where
    "m = [[a0, a1, a2, a3], [b0, b1, b2, b3], [c0, c1, c2, c3], [d0, d1, d2, d3]]"
proof -
  have four: "\<exists>p q r s. xs = [p, q, r, s]" if "length xs = 4" for xs :: "'a list"
  proof -
    from that obtain p xs1 where "xs = p # xs1" "length xs1 = 3"
      by (cases xs) auto
    moreover then obtain q xs2 where "xs1 = q # xs2" "length xs2 = 2"
      by (cases xs1) auto
    moreover then obtain r xs3 where "xs2 = r # xs3" "length xs3 = 1"
      by (cases xs2) auto
    moreover then obtain s where "xs3 = [s]"
      by (cases xs3) auto
    ultimately show ?thesis by blast
  qed
  from assms have "length m = 4" and rows: "\<forall>r \<in> set m. length r = 4"
    by (simp_all add: is4x4_def list_all_iff)
  then obtain r0 r1 r2 r3 where m: "m = [r0, r1, r2, r3]"
    using four by blast
  with rows have "length r0 = 4" "length r1 = 4" "length r2 = 4" "length r3 = 4"
    by simp_all
  then show ?thesis
    using four [of r0] four [of r1] four [of r2] four [of r3] m that by blast
qed

lemma is4x4_identity: "is4x4 (createIdentityMatrix 4)"
  by (simp add: is4x4_def createIdentityMatrix_def upt_4)

lemma createIdentityMatrix_4: "createIdentityMatrix 4 = identity4"
  by (simp add: createIdentityMatrix_def identity4_def upt_4)

lemma multiply_4x4:
  assumes "is4x4 a" and "is4x4 b"
  shows "multiply a b = Some (times4 a b)"
proof -
  from assms(1) obtain a0 a1 a2 a3 b0 b1 b2 b3 c0 c1 c2 c3 d0 d1 d2 d3 where
    a: "a = [[a0, a1, a2, a3], [b0, b1, b2, b3], [c0, c1, c2, c3], [d0, d1, d2, d3]]"
    by (rule is4x4_rows)
  from assms(2) obtain e0 e1 e2 e3 f0 f1 f2 f3 g0 g1 g2 g3 h0 h1 h2 h3 where
    b: "b = [[e0, e1, e2, e3], [f0, f1, f2, f3], [g0, g1, g2, g3], [h0, h1, h2, h3]]"
    by (rule is4x4_rows)
  show ?thesis
    unfolding a b
    by (simp add: multiply_def matrixMultiply_def times4_def entry_def width_def height_def upt_4)
qed

lemma is4x4_times4: "is4x4 (times4 a b)"
  by (simp add: is4x4_def times4_def upt_4)

lemma new_is4x4: "is4x4 (matrix_private new_TransformationMatrix)"
  by (simp add: new_TransformationMatrix_def is4x4_identity)

text \<open>A composing method on a 4 by 4 state, with a 4 by 4 operation matrix, stores the product.\<close>

lemma compose_4x4:
  assumes "is4x4 (matrix_private tm)" and "is4x4 b"
  shows "map_option (\<lambda>m. tm\<lparr> matrix_private := m \<rparr>) (multiply (matrix_private tm) b)
         = Some (tm\<lparr> matrix_private := times4 (matrix_private tm) b \<rparr>)"
  using assms by (simp add: multiply_4x4)

lemma translate_matrix_eq: "[[1, 0, 0, x], [0, 1, 0, y], [0, 0, 1, z], [0, 0, 0, 1]] = T_spec x y z"
  by (simp add: T_spec_def set_entry_def identity4_def)

lemma is4x4_T_spec: "is4x4 (T_spec x y z)"
  by (simp add: T_spec_def set_entry_def identity4_def is4x4_def)

lemma scale_matrix_eq: "[[x, 0, 0, 0], [0, y, 0, 0], [0, 0, z, 0], [0, 0, 0, 1]] = S_spec x y z"
  by (simp add: S_spec_def diag4_def upt_4)

lemma is4x4_diag4: "is4x4 (diag4 p q r t)"
  by (simp add: diag4_def is4x4_def upt_4)

lemma rotate_matrix_eq: "rotate_matrix \<theta> x y z = R_spec \<theta> x y z"
  by (simp add: rotate_matrix_def R_spec_def Let_def power2_eq_square)

lemma is4x4_R_spec: "is4x4 (R_spec \<theta> x y z)"
  by (simp add: R_spec_def is4x4_def)

lemma is4x4_O_spec: "is4x4 (O_spec eye center up)"
  by (simp add: O_spec_def Let_def is4x4_def)

lemma lookAt_matrix_eq: "lookAt_matrix eye center up = O_spec eye center up"
  by (simp add: lookAt_matrix_def O_spec_def)

lemma translate_4x4:
  "is4x4 (matrix_private tm) \<Longrightarrow>
     translate x y z tm = Some (tm\<lparr> matrix_private := times4 (matrix_private tm) (T_spec x y z) \<rparr>)"
  unfolding translate_def translate_matrix_eq by (rule compose_4x4) (assumption, rule is4x4_T_spec)

lemma scale_4x4:
  "is4x4 (matrix_private tm) \<Longrightarrow>
     scale x y z tm = Some (tm\<lparr> matrix_private := times4 (matrix_private tm) (S_spec x y z) \<rparr>)"
  unfolding scale_def scale_matrix_eq S_spec_def by (rule compose_4x4) (assumption, rule is4x4_diag4)

lemma rotate_4x4:
  "is4x4 (matrix_private tm) \<Longrightarrow>
     rotate \<theta> x y z tm = Some (tm\<lparr> matrix_private := times4 (matrix_private tm) (R_spec \<theta> x y z) \<rparr>)"
  unfolding rotate_def rotate_matrix_eq by (rule compose_4x4) (assumption, rule is4x4_R_spec)

lemma rotate010_4x4:
  assumes "is4x4 (matrix_private tm)"
  shows "\<exists>m. rotate010 \<theta> tm = Some (tm\<lparr> matrix_private := m \<rparr>) \<and> is4x4 m"
proof -
  have "is4x4 [[cos \<theta>, 0, sin \<theta>, 0], [0, 1, 0, 0], [- sin \<theta>, 0, cos \<theta>, 0], [0, 0, 0, 1]]"
    by (simp add: is4x4_def)
  from compose_4x4 [OF assms this] show ?thesis
    unfolding rotate010_def Let_def using is4x4_times4 by blast
qed

lemma rotate100_4x4:
  assumes "is4x4 (matrix_private tm)"
  shows "\<exists>m. rotate100 \<theta> tm = Some (tm\<lparr> matrix_private := m \<rparr>) \<and> is4x4 m"
proof -
  have "is4x4 [[1, 0, 0, 0], [0, cos \<theta>, - sin \<theta>, 0], [0, sin \<theta>, cos \<theta>, 0], [0, 0, 0, 1]]"
    by (simp add: is4x4_def)
  from compose_4x4 [OF assms this] show ?thesis
    unfolding rotate100_def Let_def using is4x4_times4 by blast
qed

lemma rotate001_4x4:
  assumes "is4x4 (matrix_private tm)"
  shows "\<exists>m. rotate001 \<theta> tm = Some (tm\<lparr> matrix_private := m \<rparr>) \<and> is4x4 m"
proof -
  have "is4x4 [[cos \<theta>, - sin \<theta>, 0, 0], [sin \<theta>, cos \<theta>, 0, 0], [0, 0, 1, 0], [0, 0, 0, 1]]"
    by (simp add: is4x4_def)
  from compose_4x4 [OF assms this] show ?thesis
    unfolding rotate001_def Let_def using is4x4_times4 by blast
qed

lemma lookAt_4x4:
  assumes "is4x4 (matrix_private tm)"
  shows "lookAt eye center up tm
         = Some (tm\<lparr> matrix_private := times4 (matrix_private tm) (T_spec (- vx eye) (- vy eye) (- vz eye)),
                     matrix := Some (times4 (matrix_private tm) (O_spec eye center up)) \<rparr>)"
proof -
  have "multiply (matrix_private tm) (lookAt_matrix eye center up)
        = Some (times4 (matrix_private tm) (O_spec eye center up))"
    unfolding lookAt_matrix_eq using assms by (simp add: multiply_4x4 is4x4_O_spec)
  moreover have "translate x y z (tm\<lparr> matrix := v \<rparr>)
        = Some (tm\<lparr> matrix_private := times4 (matrix_private tm) (T_spec x y z), matrix := v \<rparr>)" for x y z v
    using assms by (simp add: translate_4x4)
  ultimately show ?thesis
    by (simp add: lookAt_def)
qed

lemma call_4x4:
  assumes "is4x4 (matrix_private tm)"
  shows "\<exists>tm'. call op tm = Some tm' \<and> is4x4 (matrix_private tm')"
proof (cases op)
  case (Rotate010 \<theta>)
  with rotate010_4x4 [OF assms, of \<theta>] show ?thesis by auto
next
  case (Rotate100 \<theta>)
  with rotate100_4x4 [OF assms, of \<theta>] show ?thesis by auto
next
  case (Rotate001 \<theta>)
  with rotate001_4x4 [OF assms, of \<theta>] show ?thesis by auto
qed (simp_all add: assms loadIdentity_def is4x4_identity translate_4x4 scale_4x4 rotate_4x4
       lookAt_4x4 is4x4_times4)

section \<open>Translation and scaling\<close>

text \<open>
  C7. On every 4 by 4 state and for all numbers x, y, z, \<^verbatim>\<open>translate(x, y, z)\<close> returns
  and replaces the internal matrix with internal matrix times \<open>T(x,y,z)\<close>, the identity with
  the top three entries of its last column set to x, y, z. From a new object,
  \<^verbatim>\<open>translate(1,2,3)\<close> gives a matrix whose last column has 1, 2, 3 in its top three
  rows and whose upper-left 3 by 3 part is the identity.
\<close>

theorem translate_right_multiplies:
  "(is4x4 (matrix_private tm) \<longrightarrow>
      translate x y z tm = Some (tm\<lparr> matrix_private := times4 (matrix_private tm) (T_spec x y z) \<rparr>))
   \<and> (\<exists>tm'. translate 1 2 3 new_TransformationMatrix = Some tm'
         \<and> map (\<lambda>i. entry (matrix_private tm') i 3) [0..<3] = [1, 2, 3]
         \<and> upper3 (matrix_private tm') = identity3)"
proof (intro conjI impI)
  assume "is4x4 (matrix_private tm)"
  then show "translate x y z tm = Some (tm\<lparr> matrix_private := times4 (matrix_private tm) (T_spec x y z) \<rparr>)"
    unfolding translate_def translate_matrix_eq by (rule compose_4x4) (rule is4x4_T_spec)
next
  have "translate 1 2 3 new_TransformationMatrix
        = Some (new_TransformationMatrix\<lparr> matrix_private := times4 (matrix_private new_TransformationMatrix) (T_spec 1 2 3) \<rparr>)"
    unfolding translate_def translate_matrix_eq by (rule compose_4x4) (rule new_is4x4, rule is4x4_T_spec)
  moreover have "times4 (matrix_private new_TransformationMatrix) (T_spec 1 2 3)
     = [[1, 0, 0, 1], [0, 1, 0, 2], [0, 0, 1, 3], [0, 0, 0, 1]]"
    by (simp add: new_TransformationMatrix_def createIdentityMatrix_4 identity4_def T_spec_def
        set_entry_def times4_def entry_def upt_4)
  ultimately show "\<exists>tm'. translate 1 2 3 new_TransformationMatrix = Some tm'
         \<and> map (\<lambda>i. entry (matrix_private tm') i 3) [0..<3] = [1, 2, 3]
         \<and> upper3 (matrix_private tm') = identity3"
    by (simp add: upper3_def identity3_def entry_def upt_3)
qed

theorem translate_right_multiplies_witness:
  "is4x4 (matrix_private new_TransformationMatrix) \<and>
   map_option matrix_private (translate 5 0 (-2) new_TransformationMatrix)
     = Some [[1, 0, 0, 5], [0, 1, 0, 0], [0, 0, 1, -2], [0, 0, 0, 1]]"
  using translate_right_multiplies [of new_TransformationMatrix 5 0 "-2"]
  by (simp add: new_TransformationMatrix_def createIdentityMatrix_4 identity4_def T_spec_def
        set_entry_def times4_def entry_def upt_4 is4x4_def)

text \<open>
  C8. On every 4 by 4 state and for all numbers x, y, z, \<^verbatim>\<open>scale(x, y, z)\<close> returns and
  replaces the internal matrix with internal matrix times \<open>S(x,y,z) = diag(x, y, z, 1)\<close>. From
  a new object, \<^verbatim>\<open>scale(2,3,4)\<close> gives exactly \<open>diag(2,3,4,1)\<close>.
\<close>

theorem scale_right_multiplies:
  "(is4x4 (matrix_private tm) \<longrightarrow>
      scale x y z tm = Some (tm\<lparr> matrix_private := times4 (matrix_private tm) (S_spec x y z) \<rparr>))
   \<and> map_option matrix_private (scale 2 3 4 new_TransformationMatrix) = Some (diag4 2 3 4 1)"
proof (intro conjI impI)
  assume "is4x4 (matrix_private tm)"
  then show "scale x y z tm = Some (tm\<lparr> matrix_private := times4 (matrix_private tm) (S_spec x y z) \<rparr>)"
    unfolding scale_def scale_matrix_eq S_spec_def by (rule compose_4x4) (rule is4x4_diag4)
next
  have "scale 2 3 4 new_TransformationMatrix
        = Some (new_TransformationMatrix\<lparr> matrix_private := times4 (matrix_private new_TransformationMatrix) (diag4 2 3 4 1) \<rparr>)"
    unfolding scale_def scale_matrix_eq S_spec_def by (rule compose_4x4) (rule new_is4x4, rule is4x4_diag4)
  moreover have "times4 (matrix_private new_TransformationMatrix) (diag4 2 3 4 1) = diag4 2 3 4 1"
    by (simp add: new_TransformationMatrix_def createIdentityMatrix_4 identity4_def diag4_def
        times4_def entry_def upt_4)
  ultimately show "map_option matrix_private (scale 2 3 4 new_TransformationMatrix) = Some (diag4 2 3 4 1)"
    by simp
qed

theorem scale_right_multiplies_witness:
  "is4x4 (matrix_private new_TransformationMatrix) \<and>
   map_option matrix_private (scale 7 (-1) 0 new_TransformationMatrix)
     = Some [[7, 0, 0, 0], [0, -1, 0, 0], [0, 0, 0, 0], [0, 0, 0, 1]]"
  using scale_right_multiplies [of new_TransformationMatrix 7 "-1" 0]
  by (simp add: new_TransformationMatrix_def createIdentityMatrix_4 identity4_def S_spec_def diag4_def
        times4_def entry_def upt_4 is4x4_def)

section \<open>Rotation\<close>

text \<open>
  C3. On every 4 by 4 state, for every angle and every axis (x, y, z),
  \<^verbatim>\<open>rotate(\<theta>, x, y, z)\<close> returns and replaces the internal matrix with internal matrix
  times \<open>R\<close>, the matrix of Rodrigues' formula with the rows the specification prints.
\<close>

theorem rotate_right_multiplies:
  "is4x4 (matrix_private tm) \<Longrightarrow>
     rotate \<theta> x y z tm = Some (tm\<lparr> matrix_private := times4 (matrix_private tm) (R_spec \<theta> x y z) \<rparr>)"
  unfolding rotate_def rotate_matrix_eq by (rule compose_4x4) (assumption, rule is4x4_R_spec)

theorem rotate_right_multiplies_witness:
  "is4x4 (matrix_private new_TransformationMatrix) \<and>
   map_option matrix_private (rotate pi 0 0 1 new_TransformationMatrix)
     = Some [[-1, 0, 0, 0], [0, -1, 0, 0], [0, 0, 1, 0], [0, 0, 0, 1]]"
  using rotate_right_multiplies [of new_TransformationMatrix pi 0 0 1]
  by (simp add: new_TransformationMatrix_def createIdentityMatrix_4 identity4_def R_spec_def
        times4_def entry_def upt_4 is4x4_def)

lemma times4_diag_upper3:
  assumes "is4x4 a"
  shows "upper3 (times4 a (diag4 k k k 1)) = map (map (\<lambda>v. v * k)) (upper3 a)"
proof -
  from assms obtain a0 a1 a2 a3 b0 b1 b2 b3 c0 c1 c2 c3 d0 d1 d2 d3 where
    a: "a = [[a0, a1, a2, a3], [b0, b1, b2, b3], [c0, c1, c2, c3], [d0, d1, d2, d3]]"
    by (rule is4x4_rows)
  show ?thesis
    unfolding a by (simp add: upper3_def times4_def diag4_def entry_def upt_4 upt_3)
qed

text \<open>
  C10. For every angle and every 4 by 4 state, \<^verbatim>\<open>rotate(\<theta>, 0, 0, 0)\<close> is not refused:
  it returns, and replaces the internal matrix with internal matrix times
  \<open>diag(cos \<theta>, cos \<theta>, cos \<theta>, 1)\<close>, so that every entry of the upper-left 3 by 3 part
  is multiplied by \<open>cos \<theta>\<close>.
\<close>

theorem rotate_zero_axis:
  assumes "is4x4 (matrix_private tm)"
  shows "\<exists>tm'. rotate \<theta> 0 0 0 tm = Some tm'
           \<and> tm' = tm\<lparr> matrix_private := times4 (matrix_private tm) (diag4 (cos \<theta>) (cos \<theta>) (cos \<theta>) 1) \<rparr>
           \<and> upper3 (matrix_private tm') = map (map (\<lambda>v. v * cos \<theta>)) (upper3 (matrix_private tm))"
proof -
  have "rotate_matrix \<theta> 0 0 0 = diag4 (cos \<theta>) (cos \<theta>) (cos \<theta>) 1"
    by (simp add: rotate_matrix_def diag4_def upt_4 Let_def)
  then have "rotate \<theta> 0 0 0 tm
          = Some (tm\<lparr> matrix_private := times4 (matrix_private tm) (diag4 (cos \<theta>) (cos \<theta>) (cos \<theta>) 1) \<rparr>)"
    unfolding rotate_def using assms by (simp add: compose_4x4 is4x4_diag4)
  then show ?thesis
    using assms by (simp add: times4_diag_upper3)
qed

theorem rotate_zero_axis_witness:
  "is4x4 (matrix_private new_TransformationMatrix) \<and>
   map_option matrix_private (rotate pi 0 0 0 new_TransformationMatrix)
     = Some [[-1, 0, 0, 0], [0, -1, 0, 0], [0, 0, -1, 0], [0, 0, 0, 1]]"
  using rotate_zero_axis [of new_TransformationMatrix pi]
  by (auto simp add: new_TransformationMatrix_def createIdentityMatrix_4 identity4_def diag4_def
        times4_def entry_def upt_4 is4x4_def)

section \<open>Construction and reset\<close>

text \<open>From a 4 by 4 state every call returns, and the state stays 4 by 4.\<close>

lemma calls_4x4:
  "is4x4 (matrix_private tm) \<Longrightarrow> \<exists>tm'. calls ops tm = Some tm' \<and> is4x4 (matrix_private tm')"
proof (induction ops arbitrary: tm)
  case Nil
  then show ?case by simp
next
  case (Cons op ops)
  from call_4x4 [OF Cons.prems] obtain tm1 where
    "call op tm = Some tm1" and "is4x4 (matrix_private tm1)"
    by blast
  with Cons.IH [of tm1] show ?case by simp
qed

text \<open>
  C9. A newly constructed object holds exactly the 4 by 4 identity. Every sequence of calls on
  a new object returns, and \<^verbatim>\<open>loadIdentity\<close> on the state it reaches, as the next call
  of the sequence, leaves exactly the 4 by 4 identity.
\<close>

theorem identity_construction_and_reset:
  "getStandardMatrix new_TransformationMatrix = identity4
   \<and> (\<exists>tm. calls ops new_TransformationMatrix = Some tm
         \<and> getStandardMatrix (loadIdentity tm) = identity4
         \<and> calls (ops @ [LoadIdentity]) new_TransformationMatrix = Some (loadIdentity tm))"
proof -
  from calls_4x4 [OF new_is4x4] obtain tm where
    tm: "calls ops new_TransformationMatrix = Some tm"
    by blast
  have seq: "calls (xs @ [LoadIdentity]) t = Some (loadIdentity t')" if "calls xs t = Some t'" for xs t t'
    using that by (induction xs arbitrary: t) (auto split: option.splits)
  have "getStandardMatrix new_TransformationMatrix = identity4"
    by (simp add: getStandardMatrix_def new_TransformationMatrix_def createIdentityMatrix_4)
  moreover have "getStandardMatrix (loadIdentity tm) = identity4"
    by (simp add: getStandardMatrix_def loadIdentity_def createIdentityMatrix_4)
  ultimately show ?thesis
    using tm seq [OF tm] by blast
qed


section \<open>lookAt\<close>

text \<open>
  No method but \<^verbatim>\<open>lookAt\<close> mentions \<^verbatim>\<open>this.matrix\<close>, and \<^verbatim>\<open>lookAt\<close> only
  assigns it: what a method returns in \<^verbatim>\<open>this.matrix_\<close> depends on
  \<^verbatim>\<open>this.matrix_\<close> alone.
\<close>

lemma matrix_private_compose:
  "map_option matrix_private (map_option (\<lambda>m. tm\<lparr> matrix_private := m \<rparr>) r) = r"
  by (cases r) simp_all

lemma call_reads_matrix_private_only:
  assumes "matrix_private t1 = matrix_private t2"
  shows "map_option matrix_private (call op t1) = map_option matrix_private (call op t2)"
proof (cases op)
  case (LookAt eye center up)
  have "map_option matrix_private (lookAt eye center up t) =
        (case multiply (matrix_private t) (lookAt_matrix eye center up) of
           None \<Rightarrow> None
         | Some m \<Rightarrow> multiply (matrix_private t) (T_spec (- vx eye) (- vy eye) (- vz eye)))" for t
    unfolding lookAt_def translate_def translate_matrix_eq
    by (simp add: matrix_private_compose split: option.splits)
  with LookAt assms show ?thesis by (simp split: option.splits)
qed (simp_all add: assms loadIdentity_def translate_def scale_def rotate_def rotate010_def
       rotate100_def rotate001_def Let_def matrix_private_compose)

lemma calls_read_matrix_private_only:
  "matrix_private t1 = matrix_private t2 \<Longrightarrow>
     map_option matrix_private (calls ops t1) = map_option matrix_private (calls ops t2)"
proof (induction ops arbitrary: t1 t2)
  case Nil
  then show ?case by simp
next
  case (Cons op ops)
  from call_reads_matrix_private_only [OF Cons.prems, of op]
  consider "call op t1 = None" "call op t2 = None"
    | u1 u2 where "call op t1 = Some u1" "call op t2 = Some u2" "matrix_private u1 = matrix_private u2"
    by (cases "call op t1"; cases "call op t2") auto
  then show ?case
  proof cases
    case 1
    then show ?thesis by simp
  next
    case 2
    with Cons.IH [of u1 u2] show ?thesis by simp
  qed
qed

lemma getInverseMat3_reads_matrix_private_only:
  "matrix_private t1 = matrix_private t2 \<Longrightarrow> getInverseMat3 t1 = getInverseMat3 t2"
  by (simp add: getInverseMat3_def)

text \<open>
  C2. On every 4 by 4 state and for all eye, center, up with center \<noteq> eye and
  cross(normalize(center - eye), up) nonzero, \<^verbatim>\<open>lookAt(eye, center, up)\<close> returns; the
  field \<^verbatim>\<open>matrix_\<close> is then the previous internal matrix times
  \<open>T(-eye.x, -eye.y, -eye.z)\<close> only, and the product with the orientation matrix is in the
  other field, \<^verbatim>\<open>matrix\<close>. Whatever that other field holds, the standard matrix, the
  3 by 3 inverse and the internal matrix after any further sequence of calls are the same.
\<close>

theorem lookAt_stores_translation_only:
  assumes "is4x4 (matrix_private tm)"
    and "center \<noteq> eye"
    and "Vec3_cross (Vec3_normalize (Vec3_subtract center eye)) up \<noteq> \<lparr> vx = 0, vy = 0, vz = 0 \<rparr>"
  shows "\<exists>tm'. lookAt eye center up tm = Some tm'
           \<and> matrix_private tm' = times4 (matrix_private tm) (T_spec (- vx eye) (- vy eye) (- vz eye))
           \<and> matrix tm' = Some (times4 (matrix_private tm) (O_spec eye center up))
           \<and> getStandardMatrix tm' = getStandardMatrix (tm'\<lparr> matrix := v \<rparr>)
           \<and> getInverseMat3 tm' = getInverseMat3 (tm'\<lparr> matrix := v \<rparr>)
           \<and> map_option matrix_private (calls ops tm')
               = map_option matrix_private (calls ops (tm'\<lparr> matrix := v \<rparr>))"
proof -
  let ?tm' = "tm\<lparr> matrix_private := times4 (matrix_private tm) (T_spec (- vx eye) (- vy eye) (- vz eye)),
                   matrix := Some (times4 (matrix_private tm) (O_spec eye center up)) \<rparr>"
  have "lookAt eye center up tm = Some ?tm'"
    using assms(1) by (rule lookAt_4x4)
  moreover have "getInverseMat3 ?tm' = getInverseMat3 (?tm'\<lparr> matrix := v \<rparr>)"
    by (rule getInverseMat3_reads_matrix_private_only) simp
  moreover have "map_option matrix_private (calls ops ?tm')
               = map_option matrix_private (calls ops (?tm'\<lparr> matrix := v \<rparr>))"
    by (rule calls_read_matrix_private_only) simp
  ultimately show ?thesis
    by (simp add: getStandardMatrix_def)
qed

lemma O_spec_0: "O_spec eye0 center0 up0 = [[0, 0, 1, 0], [0, 1, 0, 0], [-1, 0, 0, 0], [0, 0, 0, 1]]"
  by (simp add: O_spec_def Let_def eye0_def center0_def up0_def Vec3_normalize_def Vec3_subtract_def
      Vec3_cross_def Vec3_magnitude_def)

theorem lookAt_stores_translation_only_witness:
  "is4x4 (matrix_private new_TransformationMatrix) \<and> center0 \<noteq> eye0
   \<and> Vec3_cross (Vec3_normalize (Vec3_subtract center0 eye0)) up0 \<noteq> \<lparr> vx = 0, vy = 0, vz = 0 \<rparr>
   \<and> map_option matrix_private (lookAt eye0 center0 up0 new_TransformationMatrix)
       = Some [[1, 0, 0, 0], [0, 1, 0, 0], [0, 0, 1, -5], [0, 0, 0, 1]]
   \<and> map_option matrix (lookAt eye0 center0 up0 new_TransformationMatrix)
       = Some (Some [[0, 0, 1, 0], [0, 1, 0, 0], [-1, 0, 0, 0], [0, 0, 0, 1]])"
proof -
  have h1: "is4x4 (matrix_private new_TransformationMatrix)"
    by (rule new_is4x4)
  have h2: "center0 \<noteq> eye0"
    by (simp add: center0_def eye0_def)
  have h3: "Vec3_cross (Vec3_normalize (Vec3_subtract center0 eye0)) up0 \<noteq> \<lparr> vx = 0, vy = 0, vz = 0 \<rparr>"
    by (simp add: eye0_def center0_def up0_def Vec3_normalize_def Vec3_subtract_def
      Vec3_cross_def Vec3_magnitude_def)
  from lookAt_stores_translation_only [OF h1 h2 h3, of None "[]"] obtain tm' where
    r: "lookAt eye0 center0 up0 new_TransformationMatrix = Some tm'"
    and p: "matrix_private tm'
            = times4 (matrix_private new_TransformationMatrix) (T_spec (- vx eye0) (- vy eye0) (- vz eye0))"
    and m: "matrix tm' = Some (times4 (matrix_private new_TransformationMatrix) (O_spec eye0 center0 up0))"
    by blast
  have "times4 (matrix_private new_TransformationMatrix) (T_spec (- vx eye0) (- vy eye0) (- vz eye0))
        = [[1, 0, 0, 0], [0, 1, 0, 0], [0, 0, 1, -5], [0, 0, 0, 1]]"
    by (simp add: new_TransformationMatrix_def createIdentityMatrix_4 identity4_def
        T_spec_def set_entry_def times4_def entry_def upt_4 eye0_def)
  moreover have "times4 (matrix_private new_TransformationMatrix) (O_spec eye0 center0 up0)
        = [[0, 0, 1, 0], [0, 1, 0, 0], [-1, 0, 0, 0], [0, 0, 0, 1]]"
    unfolding O_spec_0
    by (simp add: new_TransformationMatrix_def createIdentityMatrix_4 identity4_def
        times4_def entry_def upt_4)
  ultimately show ?thesis
    using r p m h1 h2 h3 by simp
qed

text \<open>
  C1 says that \<^verbatim>\<open>lookAt\<close> leaves (internal matrix times \<open>O\<close>) times \<open>T(-eye)\<close> in the
  internal matrix. On a new object, with the eye at (0,0,5), the center at (1,0,5) and up
  (0,1,0), the code leaves \<open>T(0,0,-5)\<close>; the product the claim names has the rows of \<open>O\<close>
  in its upper-left part, and is another matrix.
\<close>

theorem lookAt_loses_orientation:
  "center0 \<noteq> eye0
   \<and> Vec3_cross (Vec3_normalize (Vec3_subtract center0 eye0)) up0 \<noteq> \<lparr> vx = 0, vy = 0, vz = 0 \<rparr>
   \<and> map_option matrix_private (lookAt eye0 center0 up0 new_TransformationMatrix)
       = Some [[1, 0, 0, 0], [0, 1, 0, 0], [0, 0, 1, -5], [0, 0, 0, 1]]
   \<and> times4 (times4 (matrix_private new_TransformationMatrix) (O_spec eye0 center0 up0))
        (T_spec (- vx eye0) (- vy eye0) (- vz eye0))
       = [[0, 0, 1, -5], [0, 1, 0, 0], [-1, 0, 0, 0], [0, 0, 0, 1]]"
proof (intro conjI)
  show "center0 \<noteq> eye0"
    by (simp add: center0_def eye0_def)
  show "Vec3_cross (Vec3_normalize (Vec3_subtract center0 eye0)) up0 \<noteq> \<lparr> vx = 0, vy = 0, vz = 0 \<rparr>"
    by (simp add: eye0_def center0_def up0_def Vec3_normalize_def Vec3_subtract_def
      Vec3_cross_def Vec3_magnitude_def)
  show "map_option matrix_private (lookAt eye0 center0 up0 new_TransformationMatrix)
     = Some [[1, 0, 0, 0], [0, 1, 0, 0], [0, 0, 1, -5], [0, 0, 0, 1]]"
    unfolding lookAt_4x4 [OF new_is4x4]
    by (simp add: new_TransformationMatrix_def createIdentityMatrix_4 identity4_def
        T_spec_def set_entry_def times4_def entry_def upt_4 eye0_def)
  show "times4 (times4 (matrix_private new_TransformationMatrix) (O_spec eye0 center0 up0))
        (T_spec (- vx eye0) (- vy eye0) (- vz eye0))
     = [[0, 0, 1, -5], [0, 1, 0, 0], [-1, 0, 0, 0], [0, 0, 0, 1]]"
    unfolding O_spec_0
    by (simp add: new_TransformationMatrix_def createIdentityMatrix_4 identity4_def
        T_spec_def set_entry_def times4_def entry_def upt_4 eye0_def)
qed

section \<open>The cells handed to the inverse\<close>

text \<open>
  On a 4 by 4 state the two loops of \<^verbatim>\<open>getInverseMat3\<close> fill \<open>m\<close> with the upper-left
  3 by 3 submatrix of \<^verbatim>\<open>this.matrix_\<close>, cell for cell, and the method returns what the
  library's inverse returns on it.
\<close>

lemma copy_cells_4x4:
  assumes "is4x4 a"
  shows "copy_cells a (concat (map (\<lambda>i. map (\<lambda>j. (i, j)) [0..<3]) [0..<3])) (replicate 3 (replicate 3 0))
         = Some (upper3 a)"
proof -
  from assms obtain a0 a1 a2 a3 b0 b1 b2 b3 c0 c1 c2 c3 d0 d1 d2 d3 where
    a: "a = [[a0, a1, a2, a3], [b0, b1, b2, b3], [c0, c1, c2, c3], [d0, d1, d2, d3]]"
    by (rule is4x4_rows)
  show ?thesis
    unfolding a
    by (simp add: upt_3 getValueAt_def setValueAt_def height_def width_def upper3_def entry_def
        numeral_3_eq_3)
qed


lemma getInverseMat3_copies:
  "is4x4 (matrix_private tm) \<Longrightarrow> getInverseMat3 tm = getInverse (upper3 (matrix_private tm))"
  by (simp add: getInverseMat3_def copy_cells_4x4)

end
